theory Spec2Isabelle
  imports Complex_Main
begin

section \<open>Values thrown by JavaScript code\<close>

text \<open>
  A \<^verbatim>\<open>catch (error)\<close> clause receives any JavaScript value. The code inspects a
  caught value in four ways: \<^verbatim>\<open>error instanceof Error\<close>, \<^verbatim>\<open>error.message\<close>,
  \<^verbatim>\<open>error.status\<close> and \<^verbatim>\<open>String(error)\<close>. The model keeps what these four
  observe:
  \<^item> \<open>ErrorObject name message status\<close>: an instance of \<^verbatim>\<open>Error\<close>, with its optional
    numeric \<^verbatim>\<open>status\<close> property (the HTTP status of a failed backend request);
  \<^item> \<open>OtherValue str status message\<close>: any other value that is neither \<^verbatim>\<open>null\<close> nor
    \<^verbatim>\<open>undefined\<close>: the text \<^verbatim>\<open>String(v)\<close>, or \<open>None\<close> when the value has no
    primitive conversion and \<^verbatim>\<open>String(v)\<close> raises a \<^verbatim>\<open>TypeError\<close> (an object without
    prototype, such as \<^verbatim>\<open>Object.create(null)\<close>), and its \<^verbatim>\<open>status\<close> and \<^verbatim>\<open>message\<close>
    properties where it has them;
  \<^item> \<open>Null\<close>, \<open>Undefined\<close>: reading a property of these raises a \<^verbatim>\<open>TypeError\<close>.
\<close>

datatype thrown =
    ErrorObject string string "int option"
  | OtherValue "string option" "int option" "string option"
  | Null
  | Undefined

text \<open>
  The \<^verbatim>\<open>TypeError\<close> raised by reading property \<open>p\<close> of \<^verbatim>\<open>null\<close> or \<^verbatim>\<open>undefined\<close>; the
  property name is quoted in the message.
\<close>

definition propertyTypeError :: "string \<Rightarrow> string \<Rightarrow> thrown" where
  "propertyTypeError v p =
     ErrorObject ''TypeError''
       (''Cannot read properties of '' @ v @ '' (reading '' @ [CHR 0x27] @ p @ [CHR 0x27] @ '')'')
       None"

text \<open>The \<^verbatim>\<open>TypeError\<close> raised by \<^verbatim>\<open>String(v)\<close> for a value without primitive conversion.\<close>

definition primitiveTypeError :: thrown where
  "primitiveTypeError =
     ErrorObject ''TypeError'' ''Cannot convert object to primitive value'' None"

text \<open>\<^verbatim>\<open>error.status\<close>: \<open>Inl\<close> is the \<^verbatim>\<open>TypeError\<close> of a property read on a nullish value.\<close>

fun get_status :: "thrown \<Rightarrow> thrown + int option" where
  "get_status (ErrorObject nm msg st) = Inr st"
| "get_status (OtherValue s st msg) = Inr st"
| "get_status Null = Inl (propertyTypeError ''null'' ''status'')"
| "get_status Undefined = Inl (propertyTypeError ''undefined'' ''status'')"

text \<open>\<^verbatim>\<open>error.message\<close>, likewise.\<close>

fun get_message :: "thrown \<Rightarrow> thrown + string option" where
  "get_message (ErrorObject nm msg st) = Inr (Some msg)"
| "get_message (OtherValue s st msg) = Inr msg"
| "get_message Null = Inl (propertyTypeError ''null'' ''message'')"
| "get_message Undefined = Inl (propertyTypeError ''undefined'' ''message'')"

text \<open>
  \<^verbatim>\<open>error instanceof Error ? error.message : String(error)\<close>: \<open>Inl\<close> is the
  \<^verbatim>\<open>TypeError\<close> of \<^verbatim>\<open>String\<close> on a value without primitive conversion.
\<close>

fun message_or_String :: "thrown \<Rightarrow> thrown + string" where
  "message_or_String (ErrorObject nm msg st) = Inr msg"
| "message_or_String (OtherValue s st msg) =
     (case s of None \<Rightarrow> Inl primitiveTypeError | Some str \<Rightarrow> Inr str)"
| "message_or_String Null = Inr ''null''"
| "message_or_String Undefined = Inr ''undefined''"


section \<open>The backoff retrier: \<^verbatim>\<open>retryWithBackoff\<close>\<close>

text \<open>
  \<^verbatim>\<open>src/infra/utils/retry.ts\<close>, lines 10 to 29; the copy at the top of
  \<^verbatim>\<open>src/infra/agent.ts\<close> (lines 19 to 41) has the same body.

  \<^verbatim>\<open>
  export async function retryWithBackoff<T>(fn: () => Promise<T>, maxRetries = 3): Promise<T> {
    for (let attempt = 1; attempt <= maxRetries; attempt++) {
      try {
        return await fn();
      } catch (error) {
        const retryableError = error as RetryableError;
        if (retryableError.status === 429 && attempt < maxRetries) {
          const delay = Math.min(1000 * Math.pow(2, attempt), 30000);
          await new Promise((resolve) => setTimeout(resolve, delay));
          continue;
        }
        throw error;
      }
    }
    throw new Error("Max retries exceeded");
  }
  \<close>

  The wrapped operation \<^verbatim>\<open>fn\<close> has effects, so two invocations need not agree. It is
  modelled by the outcomes of its successive invocations within one run: \<open>fn i\<close> is what
  the invocation after \<open>i\<close> earlier ones does, \<open>Inr v\<close> for a promise resolved with \<open>v\<close>
  and \<open>Inl e\<close> for one rejected with \<open>e\<close>.

  \<^verbatim>\<open>maxRetries\<close> has the TypeScript type \<^verbatim>\<open>number\<close> and need not be whole: it is a
  rational number here, so that 1.5 or 2.5 is an argument like 3. The values
  \<^verbatim>\<open>NaN\<close>, \<^verbatim>\<open>Infinity\<close> and \<^verbatim>\<open>-Infinity\<close> are outside the model (with \<^verbatim>\<open>Infinity\<close> the
  loop has no bound). The counter \<^verbatim>\<open>attempt\<close> starts at 1 and is incremented, so it is
  an integer, compared with \<^verbatim>\<open>maxRetries\<close> as a number. On integers
  \<^verbatim>\<open>Math.min(1000 * Math.pow(2, attempt), 30000)\<close> is exact, and where the double
  overflows to infinity the minimum is 30000 as well.

  A run ends in one of four ways, kept apart by the statement that ends it: the
  \<^verbatim>\<open>return\<close> of line 16, the \<^verbatim>\<open>throw error\<close> of line 25 (the caught value itself), the
  \<^verbatim>\<open>TypeError\<close> of reading \<^verbatim>\<open>.status\<close> of a nullish caught value at line 19, and the
  \<^verbatim>\<open>throw new Error("Max retries exceeded")\<close> of line 28.
\<close>

datatype 'a retry_outcome =
    Returned 'a
  | Rethrown thrown
  | CatchFailed thrown
  | MaxRetriesExceeded

record 'a retry_run =
  outcome :: "'a retry_outcome"
  invocations :: nat
  delays :: "int list"

text \<open>Line 20: the delay in milliseconds computed in attempt \<open>attempt\<close>.\<close>

definition backoff_delay :: "int \<Rightarrow> int" where
  "backoff_delay attempt = min (1000 * 2 ^ nat attempt) 30000"

text \<open>
  The \<^verbatim>\<open>for\<close> loop from a given value of \<^verbatim>\<open>attempt\<close>, with the number of invocations
  of \<^verbatim>\<open>fn\<close> made and the delays waited so far.
\<close>

function retry_loop ::
  "(nat \<Rightarrow> thrown + 'a) \<Rightarrow> rat \<Rightarrow> int \<Rightarrow> nat \<Rightarrow> int list \<Rightarrow> 'a retry_run" where
  "retry_loop fn maxRetries attempt calls waited =
     (if of_int attempt \<le> maxRetries then
        (case fn calls of
           Inr v \<Rightarrow> \<lparr>outcome = Returned v, invocations = calls + 1, delays = waited\<rparr>
         | Inl error \<Rightarrow>
             (case get_status error of
                Inl typeError \<Rightarrow>
                  \<lparr>outcome = CatchFailed typeError, invocations = calls + 1, delays = waited\<rparr>
              | Inr status \<Rightarrow>
                  if status = Some 429 \<and> of_int attempt < maxRetries then
                    retry_loop fn maxRetries (attempt + 1) (calls + 1)
                      (waited @ [backoff_delay attempt])
                  else
                    \<lparr>outcome = Rethrown error, invocations = calls + 1, delays = waited\<rparr>))
      else \<lparr>outcome = MaxRetriesExceeded, invocations = calls, delays = waited\<rparr>)"
  by pat_completeness auto
termination
proof (relation "measure (\<lambda>(fn, maxRetries, attempt, calls, waited).
                    nat (\<lfloor>maxRetries\<rfloor> + 1 - attempt))")
  show "wf (measure (\<lambda>(fn :: nat \<Rightarrow> thrown + 'a, maxRetries :: rat, attempt :: int,
                      calls :: nat, waited :: int list).
                    nat (\<lfloor>maxRetries\<rfloor> + 1 - attempt)))"
    by simp
next
  fix fn :: "nat \<Rightarrow> thrown + 'a" and maxRetries :: rat and attempt :: int
    and calls :: nat and waited :: "int list"
  assume "of_int attempt \<le> maxRetries"
  then have "attempt \<le> \<lfloor>maxRetries\<rfloor>" by (simp add: le_floor_iff)
  then show "((fn, maxRetries, attempt + 1, calls + 1, waited @ [backoff_delay attempt]),
              (fn, maxRetries, attempt, calls, waited))
             \<in> measure (\<lambda>(fn, maxRetries, attempt, calls, waited).
                    nat (\<lfloor>maxRetries\<rfloor> + 1 - attempt))"
    by simp
qed

declare retry_loop.simps [simp del]

text \<open>The function itself: \<^verbatim>\<open>maxRetries\<close> defaults to 3 when the argument is absent.\<close>

definition retryWithBackoff :: "(nat \<Rightarrow> thrown + 'a) \<Rightarrow> rat option \<Rightarrow> 'a retry_run" where
  "retryWithBackoff fn maxRetries_arg =
     (let maxRetries = (case maxRetries_arg of None \<Rightarrow> 3 | Some m \<Rightarrow> m)
      in retry_loop fn maxRetries 1 0 [])"

text \<open>An invocation that fails with the rate-limit classification: HTTP status 429.\<close>

definition rate_limited :: "thrown + 'a \<Rightarrow> bool" where
  "rate_limited r = (case r of Inl e \<Rightarrow> get_status e = Inr (Some 429) | Inr v \<Rightarrow> False)"


text \<open>Inputs for the examples: a 429 failure, and wrapped operations.\<close>

definition tooManyRequests :: thrown where
  "tooManyRequests = ErrorObject ''Error'' ''Too Many Requests'' (Some 429)"

definition always_rate_limited :: "nat \<Rightarrow> thrown + string" where
  "always_rate_limited i = Inl tooManyRequests"

definition rate_limited_twice :: "nat \<Rightarrow> thrown + string" where
  "rate_limited_twice i = (if i < 2 then Inl tooManyRequests else Inr ''answer'')"




section \<open>The hybrid lookup tool: \<^verbatim>\<open>createItemLookupTool\<close>\<close>

text \<open>
  \<^verbatim>\<open>src/infra/tools/item-lookup.ts\<close>. The tool talks to two collaborators, the MongoDB
  collection and the vector store built on it (which embeds the query through the
  embedding backend inside \<^verbatim>\<open>similaritySearchWithScore\<close>). Neither is code of the
  repository, so both are parameters of the model: a \<open>backend\<close> gives, for each step
  of the tool that can fail, what the step does (\<open>Inr\<close> a value, \<open>Inl\<close> a value
  thrown). Every request sent to a collaborator is recorded, in order, in
  \<open>backend_calls\<close>.

  The filter documents the tool builds are data:
  \<^verbatim>\<open>{}\<close> is \<open>MatchAll\<close>, \<^verbatim>\<open>{f: {$regex: p, $options: o}}\<close> is \<open>Regex f p o\<close>, and
  \<^verbatim>\<open>{$or: [...]}\<close> is \<open>Or\<close>.
\<close>

datatype mongo_filter =
    MatchAll
  | Regex string string string
  | Or "mongo_filter list"

datatype backend_call =
    CountDocuments
  | Find mongo_filter int
  | SimilaritySearchWithScore string int

text \<open>
  \<open>countDocuments\<close> is \<^verbatim>\<open>await collection.countDocuments()\<close>;
  \<open>find_limit_toArray f k\<close> is \<^verbatim>\<open>await collection.find(f).limit(k).toArray()\<close>;
  \<open>new_vectorStore\<close> is the construction of the embeddings client and of the vector
  store (lines 33 to 44), which sends no request but can throw, for instance when no API
  key is configured; \<open>similaritySearchWithScore q k\<close> is the vector store's method of
  that name, returning documents paired with scores.
\<close>

record ('doc, 'score) backend =
  countDocuments :: "thrown + nat"
  find_limit_toArray :: "mongo_filter \<Rightarrow> int \<Rightarrow> thrown + 'doc list"
  new_vectorStore :: "thrown + unit"
  similaritySearchWithScore :: "string \<Rightarrow> int \<Rightarrow> thrown + ('doc \<times> 'score) list"

text \<open>
  The tool returns \<^verbatim>\<open>JSON.stringify\<close> of an object literal. The model keeps the object:
  a key that the literal does not have, or whose value is \<^verbatim>\<open>undefined\<close> (which
  \<^verbatim>\<open>JSON.stringify\<close> omits), is \<open>None\<close>. The entries of \<^verbatim>\<open>results\<close> are
  \<^verbatim>\<open>[document, score]\<close> pairs from the vector search and plain documents from the text
  search.
\<close>

datatype ('doc, 'score) result_item =
    Scored 'doc 'score
  | Plain 'doc

record ('doc, 'score) envelope =
  error :: "string option"
  message :: "string option"
  details :: "string option"
  results :: "('doc, 'score) result_item list option"
  searchType :: "string option"
  query :: "string option"
  count :: "nat option"

definition json_object :: "('doc, 'score) envelope" where
  "json_object =
     \<lparr>error = None, message = None, details = None, results = None,
      searchType = None, query = None, count = None\<rparr>"

text \<open>
  One call of the tool: \<open>returned\<close> is \<open>Inr\<close> of the object it returns, or \<open>Inl\<close> of a
  value thrown out of the tool function.
\<close>

record ('doc, 'score) tool_run =
  returned :: "thrown + ('doc, 'score) envelope"
  backend_calls :: "backend_call list"

text \<open>Lines 58 to 66 of \<^verbatim>\<open>item-lookup.ts\<close>: the filter of the text search.\<close>

definition text_search_filter :: "string \<Rightarrow> mongo_filter" where
  "text_search_filter q =
     Or [Regex ''item_name'' q ''i'',
         Regex ''item_description'' q ''i'',
         Regex ''categories'' q ''i'',
         Regex ''embedding_text'' q ''i'']"

text \<open>
  Lines 87 to 109, the \<^verbatim>\<open>catch\<close> block:
  \<^verbatim>\<open>
  const errorDetails =
    error instanceof Error
      ? { message: error.message, stack: error.stack, name: error.name }
      : String(error);
  const errorResponse: SearchError = {
    error: "Failed to search inventory",
    details: error instanceof Error ? error.message : String(error),
    query,
  };
  return JSON.stringify(errorResponse);
  \<close>
  The block is not itself inside a \<^verbatim>\<open>try\<close>: when \<^verbatim>\<open>String(error)\<close> raises a
  \<^verbatim>\<open>TypeError\<close>, that error leaves the tool function. That is the \<open>Inl\<close> result.
\<close>

definition errorResponse :: "thrown \<Rightarrow> string \<Rightarrow> thrown + ('doc, 'score) envelope" where
  "errorResponse e q =
     (case message_or_String e of
        Inl typeError \<Rightarrow> Inl typeError
      | Inr detail \<Rightarrow>
          Inr (json_object\<lparr>error := Some ''Failed to search inventory'',
                           details := Some detail,
                           query := Some q\<rparr>))"

text \<open>Lines 21 to 25: the object returned for an empty collection.\<close>

definition emptyResponse :: "('doc, 'score) envelope" where
  "emptyResponse =
     json_object\<lparr>error := Some ''No items found in inventory'',
                 message := Some ''The inventory database appears to be empty'',
                 count := Some 0\<rparr>"

text \<open>
  \<^verbatim>\<open>n\<close> is optional, with default 10 (in the schema, lines 118 to 122, and in the
  parameter list, line 10); it is an integer here. The schema is
  \<^verbatim>\<open>z.number().optional().default(10)\<close>, with no lower bound.
\<close>

definition n_or_default :: "int option \<Rightarrow> int" where
  "n_or_default n_arg = (case n_arg of None \<Rightarrow> 10 | Some k \<Rightarrow> k)"

text \<open>
  The tool function, lines 10 to 110. The whole body is inside \<^verbatim>\<open>try\<close>, so a value
  thrown by any of its steps goes to the \<^verbatim>\<open>catch\<close> block, and what the tool does then
  is what that block does.
\<close>

definition createItemLookupTool ::
  "('doc, 'score) backend \<Rightarrow> string \<Rightarrow> int option \<Rightarrow> ('doc, 'score) tool_run" where
  "createItemLookupTool collection q n_arg =
     (let n = n_or_default n_arg in
      case countDocuments collection of
        Inl e \<Rightarrow>
          \<lparr>returned = errorResponse e q, backend_calls = [CountDocuments]\<rparr>
      | Inr totalCount \<Rightarrow>
          if totalCount = 0 then
            \<lparr>returned = Inr emptyResponse, backend_calls = [CountDocuments]\<rparr>
          else
            (case new_vectorStore collection of
               Inl e \<Rightarrow>
                 \<lparr>returned = errorResponse e q, backend_calls = [CountDocuments]\<rparr>
             | Inr vectorStore \<Rightarrow>
                 (case similaritySearchWithScore collection q n of
                    Inl e \<Rightarrow>
                      \<lparr>returned = errorResponse e q,
                       backend_calls = [CountDocuments, SimilaritySearchWithScore q n]\<rparr>
                  | Inr result \<Rightarrow>
                      if length result = 0 then
                        (case find_limit_toArray collection (text_search_filter q) n of
                           Inl e \<Rightarrow>
                             \<lparr>returned = errorResponse e q,
                              backend_calls =
                                [CountDocuments, SimilaritySearchWithScore q n,
                                 Find (text_search_filter q) n]\<rparr>
                         | Inr textResults \<Rightarrow>
                             \<lparr>returned = Inr (json_object\<lparr>
                                results := Some (map Plain textResults),
                                searchType := Some ''text'',
                                query := Some q,
                                count := Some (length textResults)\<rparr>),
                              backend_calls =
                                [CountDocuments, SimilaritySearchWithScore q n,
                                 Find (text_search_filter q) n]\<rparr>)
                      else
                        \<lparr>returned = Inr (json_object\<lparr>
                           results := Some (map (\<lambda>(d, s). Scored d s) result),
                           searchType := Some ''vector'',
                           query := Some q,
                           count := Some (length result)\<rparr>),
                         backend_calls =
                           [CountDocuments, SimilaritySearchWithScore q n]\<rparr>)))"

text \<open>
  The semantic search as one step, lines 33 to 48: the vector store is constructed and
  \<^verbatim>\<open>similaritySearchWithScore(query, n)\<close> awaited; \<open>Inl\<close> when either throws.
\<close>

definition semantic_search ::
  "('doc, 'score) backend \<Rightarrow> string \<Rightarrow> int \<Rightarrow> thrown + ('doc \<times> 'score) list" where
  "semantic_search collection q n =
     (case new_vectorStore collection of
        Inl e \<Rightarrow> Inl e
      | Inr vectorStore \<Rightarrow> similaritySearchWithScore collection q n)"

text \<open>What the calls of one run say: how often each search was requested.\<close>

fun is_text_search :: "backend_call \<Rightarrow> bool" where
  "is_text_search (Find (Or fs) k) = True"
| "is_text_search c = False"

fun is_vector_search :: "backend_call \<Rightarrow> bool" where
  "is_vector_search (SimilaritySearchWithScore q k) = True"
| "is_vector_search c = False"

definition text_searches :: "backend_call list \<Rightarrow> nat" where
  "text_searches cs = length (filter is_text_search cs)"

definition vector_searches :: "backend_call list \<Rightarrow> nat" where
  "vector_searches cs = length (filter is_vector_search cs)"


subsection \<open>The inline copy of the tool in \<^verbatim>\<open>agent.ts\<close>\<close>

text \<open>
  \<^verbatim>\<open>src/infra/agent.ts\<close>, lines 63 to 173, defines \<^verbatim>\<open>itemLookupTool\<close> inline. It
  differs from \<^verbatim>\<open>createItemLookupTool\<close> in two places: it fetches three sample
  documents for logging once the collection is known not to be empty (line 83), and its
  \<^verbatim>\<open>catch\<close> block reads \<^verbatim>\<open>error.message\<close> without testing the caught value
  (lines 144 to 155), so a nullish caught value raises a \<^verbatim>\<open>TypeError\<close> there.
\<close>

definition itemLookupTool_catch ::
  "thrown \<Rightarrow> string \<Rightarrow> backend_call list \<Rightarrow> ('doc, 'score) tool_run" where
  "itemLookupTool_catch e q cs =
     (case get_message e of
        Inl typeError \<Rightarrow> \<lparr>returned = Inl typeError, backend_calls = cs\<rparr>
      | Inr msg \<Rightarrow>
          \<lparr>returned = Inr (json_object\<lparr>error := Some ''Failed to search inventory'',
                                      details := msg,
                                      query := Some q\<rparr>),
           backend_calls = cs\<rparr>)"

definition itemLookupTool ::
  "('doc, 'score) backend \<Rightarrow> string \<Rightarrow> int option \<Rightarrow> ('doc, 'score) tool_run" where
  "itemLookupTool collection q n_arg =
     (let n = n_or_default n_arg in
      case countDocuments collection of
        Inl e \<Rightarrow> itemLookupTool_catch e q [CountDocuments]
      | Inr totalCount \<Rightarrow>
          if totalCount = 0 then
            \<lparr>returned = Inr emptyResponse, backend_calls = [CountDocuments]\<rparr>
          else
            (case find_limit_toArray collection MatchAll 3 of
               Inl e \<Rightarrow> itemLookupTool_catch e q [CountDocuments, Find MatchAll 3]
             | Inr sampleDocs \<Rightarrow>
                 (case new_vectorStore collection of
                    Inl e \<Rightarrow> itemLookupTool_catch e q [CountDocuments, Find MatchAll 3]
                  | Inr vectorStore \<Rightarrow>
                 (case similaritySearchWithScore collection q n of
                    Inl e \<Rightarrow>
                      itemLookupTool_catch e q
                        [CountDocuments, Find MatchAll 3, SimilaritySearchWithScore q n]
                  | Inr result \<Rightarrow>
                      if length result = 0 then
                        (case find_limit_toArray collection (text_search_filter q) n of
                           Inl e \<Rightarrow>
                             itemLookupTool_catch e q
                               [CountDocuments, Find MatchAll 3,
                                SimilaritySearchWithScore q n,
                                Find (text_search_filter q) n]
                         | Inr textResults \<Rightarrow>
                             \<lparr>returned = Inr (json_object\<lparr>
                                results := Some (map Plain textResults),
                                searchType := Some ''text'',
                                query := Some q,
                                count := Some (length textResults)\<rparr>),
                              backend_calls =
                                [CountDocuments, Find MatchAll 3,
                                 SimilaritySearchWithScore q n,
                                 Find (text_search_filter q) n]\<rparr>)
                      else
                        \<lparr>returned = Inr (json_object\<lparr>
                           results := Some (map (\<lambda>(d, s). Scored d s) result),
                           searchType := Some ''vector'',
                           query := Some q,
                           count := Some (length result)\<rparr>),
                         backend_calls =
                           [CountDocuments, Find MatchAll 3,
                            SimilaritySearchWithScore q n]\<rparr>))))"

text \<open>
  Backends for the examples. Documents are item names and scores are integers.
  \<^item> \<open>vector_hit\<close>: one item, which the vector search finds;
  \<^item> \<open>vector_miss\<close>: the vector search finds nothing and the text search finds the item;
  \<^item> \<open>empty_collection\<close>: no item, and every search would fail if it were requested;
  \<^item> \<open>vector_fails\<close>, \<open>text_fails\<close>: the vector search, or the text search after an
    empty vector search, is rejected with an \<^verbatim>\<open>Error\<close>;
  \<^item> \<open>vector_rejects_undefined\<close>: the vector search is rejected with \<^verbatim>\<open>undefined\<close>;
  \<^item> \<open>vector_rejects_bare_object\<close>: the vector search is rejected with
    \<^verbatim>\<open>Object.create(null)\<close>, an object with no properties and no primitive conversion;
  \<^item> \<open>no_api_key\<close>: the construction of the embeddings client throws.
\<close>

definition networkError :: thrown where
  "networkError = ErrorObject ''Error'' ''fetch failed'' None"

definition vector_hit :: "(string, int) backend" where
  "vector_hit =
     \<lparr>countDocuments = Inr 1,
      find_limit_toArray = (\<lambda>f k. Inr [''Oak Table'']),
      new_vectorStore = Inr (),
      similaritySearchWithScore = (\<lambda>q k. Inr [(''Oak Table'', 1)])\<rparr>"

definition vector_miss :: "(string, int) backend" where
  "vector_miss =
     \<lparr>countDocuments = Inr 1,
      find_limit_toArray = (\<lambda>f k. Inr [''Oak Table'']),
      new_vectorStore = Inr (),
      similaritySearchWithScore = (\<lambda>q k. Inr [])\<rparr>"

definition empty_collection :: "(string, int) backend" where
  "empty_collection =
     \<lparr>countDocuments = Inr 0,
      find_limit_toArray = (\<lambda>f k. Inl networkError),
      new_vectorStore = Inr (),
      similaritySearchWithScore = (\<lambda>q k. Inl networkError)\<rparr>"

definition vector_fails :: "(string, int) backend" where
  "vector_fails =
     \<lparr>countDocuments = Inr 1,
      find_limit_toArray = (\<lambda>f k. Inr [''Oak Table'']),
      new_vectorStore = Inr (),
      similaritySearchWithScore = (\<lambda>q k. Inl networkError)\<rparr>"

definition text_fails :: "(string, int) backend" where
  "text_fails =
     \<lparr>countDocuments = Inr 1,
      find_limit_toArray = (\<lambda>f k. Inl networkError),
      new_vectorStore = Inr (),
      similaritySearchWithScore = (\<lambda>q k. Inr [])\<rparr>"



definition no_api_key :: "(string, int) backend" where
  "no_api_key =
     \<lparr>countDocuments = Inr 1,
      find_limit_toArray = (\<lambda>f k. Inr [''Oak Table'']),
      new_vectorStore = Inl (ErrorObject ''Error'' ''Please set an API key'' None),
      similaritySearchWithScore = (\<lambda>q k. Inr [(''Oak Table'', 1)])\<rparr>"


section \<open>The workflow graph: \<^verbatim>\<open>shouldContinue\<close> and the edges\<close>

text \<open>
  \<^verbatim>\<open>src/infra/agent.ts\<close>, lines 316 to 321 (and the older copy, lines 188 to 198, which
  writes the same test as an \<^verbatim>\<open>if\<close>):
  \<^verbatim>\<open>
  function shouldContinue(state: typeof GraphState.State) {
    const messages = state.messages;
    const lastMessage = messages[messages.length - 1] as AIMessage;
    const toolCalls = lastMessage.tool_calls || [];
    return toolCalls.length > 0 ? "tools" : "__end__";
  }
  \<close>
  A message carries its text and, optionally, the tool calls it requests; what a tool
  call contains is not inspected, so it is a type parameter. The state has the one
  channel \<^verbatim>\<open>messages\<close>, whose reducer is \<^verbatim>\<open>(x, y) => x.concat(y)\<close>.
\<close>

datatype role = Human | AI | Tool

record 'tc chat_message =
  sender :: role
  content :: string
  tool_calls :: "'tc list option"

record 'tc graph_state =
  messages :: "'tc chat_message list"

definition reducer :: "'tc chat_message list \<Rightarrow> 'tc chat_message list \<Rightarrow> 'tc chat_message list" where
  "reducer x y = x @ y"

text \<open>
  Indexing an empty array gives \<^verbatim>\<open>undefined\<close>, and reading \<^verbatim>\<open>.tool_calls\<close> of it
  raises a \<^verbatim>\<open>TypeError\<close>: that is the \<open>Inl\<close> result.
\<close>

definition shouldContinue :: "'tc graph_state \<Rightarrow> thrown + string" where
  "shouldContinue state =
     (let msgs = messages state in
      if msgs = [] then Inl (propertyTypeError ''undefined'' ''tool_calls'')
      else
        (let lastMessage = msgs ! (length msgs - 1);
             toolCalls = (case tool_calls lastMessage of None \<Rightarrow> [] | Some tcs \<Rightarrow> tcs)
         in Inr (if length toolCalls > 0 then ''tools'' else ''__end__'')))"

text \<open>
  A node returns a partial state, which the graph merges into the state with the
  channel's reducer. The generation node \<^verbatim>\<open>callModel\<close> returns
  \<^verbatim>\<open>{ messages: [result] }\<close>, \<^verbatim>\<open>result\<close> being the assistant message.
\<close>

definition apply_update :: "'tc graph_state \<Rightarrow> 'tc graph_state \<Rightarrow> 'tc graph_state" where
  "apply_update state update = state\<lparr>messages := reducer (messages state) (messages update)\<rparr>"

definition after_generation :: "'tc graph_state \<Rightarrow> 'tc chat_message \<Rightarrow> 'tc graph_state" where
  "after_generation state result = apply_update state \<lparr>messages = [result]\<rparr>"

text \<open>
  The edges, lines 337 to 342:
  \<^verbatim>\<open>
  .addEdge("__start__", "agent")
  .addConditionalEdges("agent", shouldContinue)
  .addEdge("tools", "agent")
  \<close>
  \<open>successor node state\<close> is the name of the node that follows \<open>node\<close> when \<open>node\<close>
  has left the state \<open>state\<close>; \<^verbatim>\<open>"__end__"\<close> ends the run and has no successor.
\<close>

datatype edge_target = Fixed string | Conditional

definition workflow_edges :: "(string \<times> edge_target) list" where
  "workflow_edges =
     [(''__start__'', Fixed ''agent''),
      (''agent'', Conditional),
      (''tools'', Fixed ''agent'')]"

definition successor :: "string \<Rightarrow> 'tc graph_state \<Rightarrow> (thrown + string) option" where
  "successor node state =
     (case map_of workflow_edges node of
        None \<Rightarrow> None
      | Some (Fixed target) \<Rightarrow> Some (Inr target)
      | Some Conditional \<Rightarrow> Some (shouldContinue state))"

text \<open>Messages for the examples.\<close>

definition question :: "string chat_message" where
  "question = \<lparr>sender = Human, content = ''Do you have an oak table?'', tool_calls = None\<rparr>"

definition lookup_request :: "string chat_message" where
  "lookup_request = \<lparr>sender = AI, content = [], tool_calls = Some [''item_lookup'']\<rparr>"

definition final_answer :: "string chat_message" where
  "final_answer = \<lparr>sender = AI, content = ''Yes: Oak Table'', tool_calls = Some []\<rparr>"


section \<open>Properties of the retrier\<close>

text \<open>
  The loop is unfolded one attempt at a time. Four facts about it carry the claims:
  a run of rate-limit failures followed by a success; a run of rate-limit failures that
  uses up a whole number of attempts; that a loop entered with a whole number of
  attempts left ends in the attempt that is not retried; and when a loop with a
  fractional bound reaches the statement after it.
\<close>

lemma rate_limitedE:
  "rate_limited r \<Longrightarrow> \<exists>e. r = Inl e \<and> get_status e = Inr (Some 429)"
  by (cases r) (simp_all add: rate_limited_def)

lemma retry_loop_retries:
  assumes "rate_limited (fn c)" and "of_int a < m"
  shows "retry_loop fn m a c ds = retry_loop fn m (a + 1) (c + 1) (ds @ [backoff_delay a])"
proof -
  from assms(1) obtain e where e: "fn c = Inl e" "get_status e = Inr (Some 429)"
    using rate_limitedE by blast
  show ?thesis
    by (subst retry_loop.simps) (simp add: e assms(2) less_imp_le)
qed



lemma shift_all_less:
  "(\<forall>i<Suc k. P (c + i)) \<longleftrightarrow> P c \<and> (\<forall>i<k. P (c + 1 + i))"
proof
  assume all: "\<forall>i<Suc k. P (c + i)"
  have "P (c + 0)" using all by blast
  moreover have "\<forall>i<k. P (c + 1 + i)"
  proof (intro allI impI)
    fix i assume "i < k"
    then have "Suc i < Suc k" by simp
    with all have "P (c + Suc i)" by blast
    then show "P (c + 1 + i)" by simp
  qed
  ultimately show "P c \<and> (\<forall>i<k. P (c + 1 + i))" by simp
next
  assume h: "P c \<and> (\<forall>i<k. P (c + 1 + i))"
  show "\<forall>i<Suc k. P (c + i)"
  proof (intro allI impI)
    fix i assume "i < Suc k"
    show "P (c + i)"
    proof (cases i)
      case 0
      with h show ?thesis by simp
    next
      case (Suc j)
      with \<open>i < Suc k\<close> have "j < k" by simp
      with h have "P (c + 1 + j)" by blast
      with Suc show ?thesis by simp
    qed
  qed
qed

lemma retry_loop_recovers:
  "\<forall>i<k. rate_limited (fn (c + i)) \<Longrightarrow> fn (c + k) = Inr v \<Longrightarrow> of_int (a + int k) \<le> m \<Longrightarrow>
   retry_loop fn m a c ds =
     \<lparr>outcome = Returned v, invocations = c + k + 1,
      delays = ds @ map backoff_delay [a..a + int k - 1]\<rparr>"
proof (induction k arbitrary: a c ds)
  case 0
  then show ?case by (subst retry_loop.simps) simp
next
  case (Suc k)
  from Suc.prems(1) shift_all_less [of k "\<lambda>j. rate_limited (fn j)" c]
  have first: "rate_limited (fn c)"
    and rest: "\<forall>i<k. rate_limited (fn (c + 1 + i))"
    by blast+
  have "(of_int a :: rat) < of_int (a + int (Suc k))" by simp
  with Suc.prems(3) have lt: "of_int a < m" by linarith
  have v: "fn (c + 1 + k) = Inr v" using Suc.prems(2) by simp
  have le: "of_int (a + 1 + int k) \<le> m" using Suc.prems(3) by (simp add: add.commute add.left_commute)
  have up: "[a..a + int (Suc k) - 1] = a # [a + 1..a + 1 + int k - 1]"
    by (subst upto_rec1) simp_all
  show ?case
    unfolding retry_loop_retries [where fn = fn and c = c, OF first lt]
      Suc.IH [OF rest v le] up
    by simp
qed

lemma retry_loop_exhausts:
  "\<forall>i\<le>k. rate_limited (fn (c + i)) \<Longrightarrow> fn (c + k) = Inl err \<Longrightarrow> of_int (a + int k) = m \<Longrightarrow>
   retry_loop fn m a c ds =
     \<lparr>outcome = Rethrown err, invocations = c + k + 1,
      delays = ds @ map backoff_delay [a..a + int k - 1]\<rparr>"
proof (induction k arbitrary: a c ds)
  case 0
  then have "rate_limited (fn c)" by simp
  with 0 have e: "get_status err = Inr (Some 429)"
    using rate_limitedE by fastforce
  show ?case using 0 e by (subst retry_loop.simps) auto
next
  case (Suc k)
  have "rate_limited (fn (c + 0))" using Suc.prems(1) by blast
  then have first: "rate_limited (fn c)" by simp
  have rest: "\<forall>i\<le>k. rate_limited (fn (c + 1 + i))"
  proof (intro allI impI)
    fix i assume "i \<le> k"
    then have "Suc i \<le> Suc k" by simp
    with Suc.prems(1) have "rate_limited (fn (c + Suc i))" by blast
    then show "rate_limited (fn (c + 1 + i))" by simp
  qed
  have "(of_int a :: rat) < of_int (a + int (Suc k))" by simp
  with Suc.prems(3) have lt: "of_int a < m" by simp
  have v: "fn (c + 1 + k) = Inl err" using Suc.prems(2) by simp
  have le: "of_int (a + 1 + int k) = m" using Suc.prems(3) by (simp add: add.commute add.left_commute)
  have up: "[a..a + int (Suc k) - 1] = a # [a + 1..a + 1 + int k - 1]"
    by (subst upto_rec1) simp_all
  show ?case
    unfolding retry_loop_retries [where fn = fn and c = c, OF first lt]
      Suc.IH [OF rest v le] up
    by simp
qed



lemma backoff_delay_mono: "0 \<le> a \<Longrightarrow> a \<le> b \<Longrightarrow> backoff_delay a \<le> backoff_delay b"
proof -
  assume "0 \<le> a" "a \<le> b"
  then have "nat a \<le> nat b" by simp
  then have "(2::int) ^ nat a \<le> 2 ^ nat b" by (rule power_increasing) simp
  then have "(1000::int) * 2 ^ nat a \<le> 1000 * 2 ^ nat b" by simp
  then show ?thesis unfolding backoff_delay_def by (rule min.mono) simp
qed

lemma sorted_backoff_delays: "0 \<le> a \<Longrightarrow> sorted (map backoff_delay [a..b])"
proof (induction "nat (b + 1 - a)" arbitrary: a)
  case 0
  then show ?case by simp
next
  case (Suc n)
  then have ab: "a \<le> b" by simp
  have up: "[a..b] = a # [a + 1..b]" using ab by (subst upto_rec1) simp_all
  have "n = nat (b + 1 - (a + 1))" using Suc.hyps(2) by simp
  then have "sorted (map backoff_delay [a + 1..b])" using Suc.hyps(1) Suc.prems by simp
  moreover have "\<forall>x\<in>set [a + 1..b]. backoff_delay a \<le> backoff_delay x"
    using Suc.prems by (simp add: backoff_delay_mono)
  ultimately show ?case unfolding up by simp
qed

lemma backoff_delay_capped: "backoff_delay a \<le> 30000"
  by (simp add: backoff_delay_def)

text \<open>
  C7. An operation that fails with status 429 on its first \<open>k\<close> invocations and then
  resolves with \<open>v\<close>, with \<open>k\<close> less than \<^verbatim>\<open>maxRetries\<close>: the retrier returns \<open>v\<close>
  after \<open>k + 1\<close> invocations and \<open>k\<close> waits. The wait after the failed attempt number
  \<open>attempt\<close> (counted from 1) is \<open>min (1000 * 2 ^ attempt) 30000\<close> milliseconds, the
  code's fixed values of the base delay and the cap; the waits are in non-decreasing
  order and none exceeds 30000.
\<close>

theorem retry_recovers_after_rate_limits:
  assumes "int k < maxRetries"
    and "\<forall>i<k. rate_limited (fn i)"
    and "fn k = Inr v"
  shows "outcome (retryWithBackoff fn (Some (of_int maxRetries))) = Returned v
    \<and> invocations (retryWithBackoff fn (Some (of_int maxRetries))) = k + 1
    \<and> length (delays (retryWithBackoff fn (Some (of_int maxRetries)))) = k
    \<and> delays (retryWithBackoff fn (Some (of_int maxRetries))) =
        map (\<lambda>attempt. min (1000 * 2 ^ nat attempt) 30000) [1..int k]
    \<and> sorted (delays (retryWithBackoff fn (Some (of_int maxRetries))))
    \<and> (\<forall>d\<in>set (delays (retryWithBackoff fn (Some (of_int maxRetries)))). d \<le> 30000)"
proof -
  have fails: "\<forall>i<k. rate_limited (fn (0 + i))" using assms(2) by simp
  have ok: "fn (0 + k) = Inr v" using assms(3) by simp
  have "1 + int k \<le> maxRetries" using assms(1) by simp
  then have le: "(of_int (1 + int k) :: rat) \<le> of_int maxRetries"
    by (simp only: of_int_le_iff)
  have run: "retryWithBackoff fn (Some (of_int maxRetries)) =
      \<lparr>outcome = Returned v, invocations = k + 1, delays = map backoff_delay [1..int k]\<rparr>"
    unfolding retryWithBackoff_def using retry_loop_recovers [OF fails ok le, of "[]"]
    by simp
  have formula: "map backoff_delay [1..int k] =
      map (\<lambda>attempt. min (1000 * 2 ^ nat attempt) 30000) [1..int k]"
    by (simp add: backoff_delay_def)
  have srt: "sorted (map backoff_delay [1..int k])"
    by (rule sorted_backoff_delays) simp
  have cap: "\<forall>d\<in>set (map backoff_delay [1..int k]). d \<le> 30000"
    by (simp add: backoff_delay_capped)
  show ?thesis
    unfolding run using formula srt cap by simp
qed

text \<open>
  C7, at an input: two rate-limit failures, then a result, with three attempts allowed.
\<close>

theorem retry_recovers_after_rate_limits_witness:
  "outcome (retryWithBackoff rate_limited_twice (Some 3)) = Returned ''answer''
   \<and> invocations (retryWithBackoff rate_limited_twice (Some 3)) = 3
   \<and> delays (retryWithBackoff rate_limited_twice (Some 3)) = [2000, 4000]"
proof -
  have k: "int 2 < 3" by simp
  have fails: "\<forall>i<2. rate_limited (rate_limited_twice i)"
    by (simp add: rate_limited_twice_def rate_limited_def tooManyRequests_def)
  have ok: "rate_limited_twice 2 = Inr ''answer''"
    by (simp add: rate_limited_twice_def)
  have up: "[1..2] = [1, 2::int]" by (simp add: upto_rec1)
  show ?thesis
    using retry_recovers_after_rate_limits [OF k fails ok] up by simp
qed

text \<open>
  C1, as stated, fails. With three attempts allowed and an operation that is rejected
  with a 429 error every time, the retrier invokes it three times and then throws that
  same error (line 25): the failure is not wrapped, and the error made at line 28 is not
  the one thrown.
\<close>

theorem retry_exhausted_counterexample:
  "invocations (retryWithBackoff always_rate_limited (Some 3)) = 3
   \<and> outcome (retryWithBackoff always_rate_limited (Some 3)) = Rethrown tooManyRequests
   \<and> outcome (retryWithBackoff always_rate_limited (Some 3)) \<noteq> MaxRetriesExceeded"
  by (simp add: retryWithBackoff_def retry_loop.simps always_rate_limited_def
      tooManyRequests_def backoff_delay_def)

text \<open>
  C1, amended. When each of the \<^verbatim>\<open>maxRetries\<close> invocations (a whole number, at least
  one) fails with status 429, the retrier makes exactly \<^verbatim>\<open>maxRetries\<close> invocations,
  waits after each but the last, and then rethrows the value the last invocation was
  rejected with, itself.
\<close>

theorem retry_rethrows_last_rate_limit:
  assumes "1 \<le> maxRetries"
    and "\<forall>i<nat maxRetries. rate_limited (fn i)"
  shows "invocations (retryWithBackoff fn (Some (of_int maxRetries))) = nat maxRetries
    \<and> (\<exists>e. fn (nat maxRetries - 1) = Inl e
          \<and> outcome (retryWithBackoff fn (Some (of_int maxRetries))) = Rethrown e)
    \<and> delays (retryWithBackoff fn (Some (of_int maxRetries))) =
        map (\<lambda>attempt. min (1000 * 2 ^ nat attempt) 30000) [1..maxRetries - 1]"
proof -
  define k where "k = nat maxRetries - 1"
  have m: "1 + int k = maxRetries" using assms(1) by (simp add: k_def)
  then have m': "(of_int (1 + int k) :: rat) = of_int maxRetries" by simp
  have fails: "\<forall>i\<le>k. rate_limited (fn (0 + i))"
    using assms by (auto simp: k_def)
  then have "rate_limited (fn k)" by simp
  then obtain e where e: "fn k = Inl e" using rate_limitedE by blast
  then have last: "fn (0 + k) = Inl e" by simp
  have upto: "[1..1 + int k - 1] = [1..maxRetries - 1]" using m by simp
  have run: "retryWithBackoff fn (Some (of_int maxRetries)) =
      \<lparr>outcome = Rethrown e, invocations = k + 1,
       delays = map backoff_delay [1..maxRetries - 1]\<rparr>"
    unfolding retryWithBackoff_def
    using retry_loop_exhausts [OF fails last m', of "[]"] upto
    by simp
  have formula: "map backoff_delay [1..maxRetries - 1] =
      map (\<lambda>attempt. min (1000 * 2 ^ nat attempt) 30000) [1..maxRetries - 1]"
    by (simp add: backoff_delay_def)
  have inv: "k + 1 = nat maxRetries" using assms(1) by (simp add: k_def)
  show ?thesis
    unfolding run using e formula inv by (simp add: k_def)
qed

text \<open>
  C1, amended, at an input: three attempts, all rate-limited.
\<close>

theorem retry_rethrows_last_rate_limit_witness:
  "invocations (retryWithBackoff always_rate_limited (Some 3)) = 3
   \<and> outcome (retryWithBackoff always_rate_limited (Some 3)) = Rethrown tooManyRequests
   \<and> delays (retryWithBackoff always_rate_limited (Some 3)) = [2000, 4000]"
proof -
  have m: "(1::int) \<le> 3" by simp
  have fails: "\<forall>i<nat 3. rate_limited (always_rate_limited i)"
    by (simp add: always_rate_limited_def rate_limited_def tooManyRequests_def)
  have up: "[1..2] = [1, 2::int]" by (simp add: upto_rec1)
  from retry_rethrows_last_rate_limit [OF m fails]
  obtain e where inv: "invocations (retryWithBackoff always_rate_limited (Some (of_int 3))) = nat 3"
    and e: "always_rate_limited (nat 3 - 1) = Inl e"
    and out: "outcome (retryWithBackoff always_rate_limited (Some (of_int 3))) = Rethrown e"
    and ds: "delays (retryWithBackoff always_rate_limited (Some (of_int 3))) =
        map (\<lambda>attempt. min (1000 * 2 ^ nat attempt) 30000) [1..3 - 1]"
    by blast
  have "e = tooManyRequests" using e by (simp add: always_rate_limited_def)
  then show ?thesis using inv out ds up by simp
qed





section \<open>Properties of the lookup tool\<close>

text \<open>What the tool does in each of the cases of its body, one lemma per case.\<close>

lemma createItemLookupTool_empty:
  "countDocuments collection = Inr 0 \<Longrightarrow>
   createItemLookupTool collection q n_arg =
     \<lparr>returned = Inr emptyResponse, backend_calls = [CountDocuments]\<rparr>"
  by (simp add: createItemLookupTool_def Let_def)

lemma itemLookupTool_empty:
  "countDocuments collection = Inr 0 \<Longrightarrow>
   itemLookupTool collection q n_arg =
     \<lparr>returned = Inr emptyResponse, backend_calls = [CountDocuments]\<rparr>"
  by (simp add: itemLookupTool_def Let_def)

lemma semantic_search_Inr:
  "semantic_search collection q n = Inr result \<longleftrightarrow>
     new_vectorStore collection = Inr () \<and> similaritySearchWithScore collection q n = Inr result"
  by (simp add: semantic_search_def split: sum.split)

lemma vector_envelope:
  "json_object\<lparr>results := Some rs, searchType := Some tag, query := Some q,
               count := Some k\<rparr> =
     \<lparr>error = None, message = None, details = None, results = Some rs,
      searchType = Some tag, query = Some q, count = Some k\<rparr>"
  by (simp add: json_object_def)

lemma createItemLookupTool_vector:
  "countDocuments collection = Inr totalCount \<Longrightarrow> totalCount \<noteq> 0 \<Longrightarrow>
   semantic_search collection q (n_or_default n_arg) = Inr result \<Longrightarrow>
   result \<noteq> [] \<Longrightarrow>
   createItemLookupTool collection q n_arg =
     \<lparr>returned = Inr (json_object\<lparr>
        results := Some (map (\<lambda>(d, s). Scored d s) result),
        searchType := Some ''vector'',
        query := Some q,
        count := Some (length result)\<rparr>),
      backend_calls = [CountDocuments, SimilaritySearchWithScore q (n_or_default n_arg)]\<rparr>"
  by (simp add: createItemLookupTool_def Let_def semantic_search_Inr)

lemma createItemLookupTool_text:
  "countDocuments collection = Inr totalCount \<Longrightarrow> totalCount \<noteq> 0 \<Longrightarrow>
   semantic_search collection q (n_or_default n_arg) = Inr [] \<Longrightarrow>
   find_limit_toArray collection (text_search_filter q) (n_or_default n_arg) = Inr textResults \<Longrightarrow>
   createItemLookupTool collection q n_arg =
     \<lparr>returned = Inr (json_object\<lparr>
        results := Some (map Plain textResults),
        searchType := Some ''text'',
        query := Some q,
        count := Some (length textResults)\<rparr>),
      backend_calls =
        [CountDocuments, SimilaritySearchWithScore q (n_or_default n_arg),
         Find (text_search_filter q) (n_or_default n_arg)]\<rparr>"
  by (simp add: createItemLookupTool_def Let_def semantic_search_Inr)

lemma createItemLookupTool_count_fails:
  "countDocuments collection = Inl e \<Longrightarrow>
   createItemLookupTool collection q n_arg =
     \<lparr>returned = errorResponse e q, backend_calls = [CountDocuments]\<rparr>"
  by (simp add: createItemLookupTool_def Let_def)

lemma createItemLookupTool_store_fails:
  "countDocuments collection = Inr totalCount \<Longrightarrow> totalCount \<noteq> 0 \<Longrightarrow>
   new_vectorStore collection = Inl e \<Longrightarrow>
   createItemLookupTool collection q n_arg =
     \<lparr>returned = errorResponse e q, backend_calls = [CountDocuments]\<rparr>"
  by (simp add: createItemLookupTool_def Let_def)

lemma createItemLookupTool_vector_fails:
  "countDocuments collection = Inr totalCount \<Longrightarrow> totalCount \<noteq> 0 \<Longrightarrow>
   new_vectorStore collection = Inr () \<Longrightarrow>
   similaritySearchWithScore collection q (n_or_default n_arg) = Inl e \<Longrightarrow>
   createItemLookupTool collection q n_arg =
     \<lparr>returned = errorResponse e q,
      backend_calls = [CountDocuments, SimilaritySearchWithScore q (n_or_default n_arg)]\<rparr>"
  by (simp add: createItemLookupTool_def Let_def)

lemma createItemLookupTool_text_fails:
  "countDocuments collection = Inr totalCount \<Longrightarrow> totalCount \<noteq> 0 \<Longrightarrow>
   semantic_search collection q (n_or_default n_arg) = Inr [] \<Longrightarrow>
   find_limit_toArray collection (text_search_filter q) (n_or_default n_arg) = Inl e \<Longrightarrow>
   createItemLookupTool collection q n_arg =
     \<lparr>returned = errorResponse e q,
      backend_calls =
        [CountDocuments, SimilaritySearchWithScore q (n_or_default n_arg),
         Find (text_search_filter q) (n_or_default n_arg)]\<rparr>"
  by (simp add: createItemLookupTool_def Let_def semantic_search_Inr)

text \<open>A failed semantic search, whichever of its two steps threw.\<close>

lemma createItemLookupTool_semantic_fails:
  assumes "countDocuments collection = Inr totalCount" and "totalCount \<noteq> 0"
    and "semantic_search collection q (n_or_default n_arg) = Inl e"
  shows "returned (createItemLookupTool collection q n_arg) = errorResponse e q"
    and "text_searches (backend_calls (createItemLookupTool collection q n_arg)) = 0"
proof -
  show "returned (createItemLookupTool collection q n_arg) = errorResponse e q"
  proof (cases "new_vectorStore collection")
    case (Inl e')
    with assms(3) have "e' = e" by (simp add: semantic_search_def)
    with createItemLookupTool_store_fails [OF assms(1,2) Inl] show ?thesis by simp
  next
    case (Inr u)
    with assms(3) have "similaritySearchWithScore collection q (n_or_default n_arg) = Inl e"
      by (simp add: semantic_search_def)
    with createItemLookupTool_vector_fails [OF assms(1,2)] Inr show ?thesis by simp
  qed
  show "text_searches (backend_calls (createItemLookupTool collection q n_arg)) = 0"
  proof (cases "new_vectorStore collection")
    case (Inl e')
    from createItemLookupTool_store_fails [OF assms(1,2) Inl] show ?thesis
      by (simp add: text_searches_def)
  next
    case (Inr u)
    with assms(3) have "similaritySearchWithScore collection q (n_or_default n_arg) = Inl e"
      by (simp add: semantic_search_def)
    with createItemLookupTool_vector_fails [OF assms(1,2)] Inr show ?thesis
      by (simp add: text_searches_def)
  qed
qed

text \<open>What the \<^verbatim>\<open>catch\<close> blocks return is never an object without an \<^verbatim>\<open>error\<close> key.\<close>

lemma error_errorResponse:
  "errorResponse e q = Inr env \<Longrightarrow> error env = Some ''Failed to search inventory''"
  by (auto simp: errorResponse_def json_object_def split: sum.splits)

lemma errorResponse_fields:
  "message_or_String e = Inr detail \<Longrightarrow>
   errorResponse e q =
     Inr \<lparr>error = Some ''Failed to search inventory'', message = None,
          details = Some detail, results = None,
          searchType = None, query = Some q, count = None\<rparr>"
  by (simp add: errorResponse_def json_object_def)

lemma error_itemLookupTool_catch:
  "returned (itemLookupTool_catch e q cs) = Inr env \<Longrightarrow>
   error env = Some ''Failed to search inventory''"
  by (auto simp: itemLookupTool_catch_def json_object_def split: sum.splits)

text \<open>The four ways the two searches can go.\<close>

lemma search_cases:
  obtains
    (semantic_rejected) e where
      "semantic_search collection q (n_or_default n_arg) = Inl e"
  | (vector_found) result where
      "semantic_search collection q (n_or_default n_arg) = Inr result" "result \<noteq> []"
  | (text_rejected) e where
      "semantic_search collection q (n_or_default n_arg) = Inr []"
      "find_limit_toArray collection (text_search_filter q) (n_or_default n_arg) = Inl e"
  | (text_found) textResults where
      "semantic_search collection q (n_or_default n_arg) = Inr []"
      "find_limit_toArray collection (text_search_filter q) (n_or_default n_arg) = Inr textResults"
proof (cases "semantic_search collection q (n_or_default n_arg)")
  case (Inl e)
  then show ?thesis by (rule semantic_rejected)
next
  case (Inr result)
  show ?thesis
  proof (cases "result = []")
    case False
    with Inr show ?thesis by (rule vector_found)
  next
    case True
    with Inr have none: "semantic_search collection q (n_or_default n_arg) = Inr []"
      by simp
    show ?thesis
    proof (cases "find_limit_toArray collection (text_search_filter q) (n_or_default n_arg)")
      case (Inl e)
      with none show ?thesis by (rule text_rejected)
    next
      case (Inr textResults)
      with none show ?thesis by (rule text_found)
    qed
  qed
qed

lemma createItemLookupTool_success:
  assumes "countDocuments collection = Inr totalCount" and "totalCount \<noteq> 0"
    and "returned (createItemLookupTool collection q n_arg) = Inr env"
    and "error env = None"
  shows "\<exists>rs. results env = Some rs \<and> count env = Some (length rs)
      \<and> (searchType env = Some ''vector'' \<or> searchType env = Some ''text'')
      \<and> (searchType env = Some ''vector'' \<longleftrightarrow>
           (\<exists>result. semantic_search collection q (n_or_default n_arg) = Inr result
              \<and> result \<noteq> [] \<and> rs = map (\<lambda>(d, s). Scored d s) result))
      \<and> (searchType env = Some ''text'' \<longleftrightarrow>
           semantic_search collection q (n_or_default n_arg) = Inr []
           \<and> (\<exists>textResults.
                find_limit_toArray collection (text_search_filter q) (n_or_default n_arg)
                  = Inr textResults
                \<and> rs = map Plain textResults))"
proof (cases rule: search_cases [of collection q n_arg])
  case (semantic_rejected e)
  from createItemLookupTool_semantic_fails(1) [OF assms(1,2) this] assms(3)
  have "errorResponse e q = Inr env" by simp
  from error_errorResponse [OF this] assms(4) show ?thesis by simp
next
  case (vector_found result)
  from createItemLookupTool_vector [OF assms(1,2) this] assms(3)
  have "env = json_object\<lparr>
        results := Some (map (\<lambda>(d, s). Scored d s) result),
        searchType := Some ''vector'',
        query := Some q,
        count := Some (length result)\<rparr>" by simp
  then show ?thesis using vector_found by (simp add: json_object_def)
next
  case (text_rejected e)
  from createItemLookupTool_text_fails [OF assms(1,2) this] assms(3)
  have "errorResponse e q = Inr env" by simp
  from error_errorResponse [OF this] assms(4) show ?thesis by simp
next
  case (text_found textResults)
  from createItemLookupTool_text [OF assms(1,2) this] assms(3)
  have "env = json_object\<lparr>
        results := Some (map Plain textResults),
        searchType := Some ''text'',
        query := Some q,
        count := Some (length textResults)\<rparr>" by simp
  then show ?thesis using text_found by (simp add: json_object_def)
qed

text \<open>The same for the inline copy, which first fetches the sample documents.\<close>

lemma itemLookupTool_sample_fails:
  "countDocuments collection = Inr totalCount \<Longrightarrow> totalCount \<noteq> 0 \<Longrightarrow>
   find_limit_toArray collection MatchAll 3 = Inl e \<Longrightarrow>
   itemLookupTool collection q n_arg =
     itemLookupTool_catch e q [CountDocuments, Find MatchAll 3]"
  by (simp add: itemLookupTool_def Let_def)

lemma itemLookupTool_semantic_fails:
  assumes "countDocuments collection = Inr totalCount" and "totalCount \<noteq> 0"
    and "find_limit_toArray collection MatchAll 3 = Inr sampleDocs"
    and "semantic_search collection q (n_or_default n_arg) = Inl e"
  shows "\<exists>cs. itemLookupTool collection q n_arg = itemLookupTool_catch e q cs"
  using assms
  by (auto simp: itemLookupTool_def Let_def semantic_search_def split: sum.splits)

lemma itemLookupTool_vector:
  "countDocuments collection = Inr totalCount \<Longrightarrow> totalCount \<noteq> 0 \<Longrightarrow>
   find_limit_toArray collection MatchAll 3 = Inr sampleDocs \<Longrightarrow>
   semantic_search collection q (n_or_default n_arg) = Inr result \<Longrightarrow>
   result \<noteq> [] \<Longrightarrow>
   itemLookupTool collection q n_arg =
     \<lparr>returned = Inr (json_object\<lparr>
        results := Some (map (\<lambda>(d, s). Scored d s) result),
        searchType := Some ''vector'',
        query := Some q,
        count := Some (length result)\<rparr>),
      backend_calls =
        [CountDocuments, Find MatchAll 3,
         SimilaritySearchWithScore q (n_or_default n_arg)]\<rparr>"
  by (simp add: itemLookupTool_def Let_def semantic_search_Inr)

lemma itemLookupTool_text:
  "countDocuments collection = Inr totalCount \<Longrightarrow> totalCount \<noteq> 0 \<Longrightarrow>
   find_limit_toArray collection MatchAll 3 = Inr sampleDocs \<Longrightarrow>
   semantic_search collection q (n_or_default n_arg) = Inr [] \<Longrightarrow>
   find_limit_toArray collection (text_search_filter q) (n_or_default n_arg) = Inr textResults \<Longrightarrow>
   itemLookupTool collection q n_arg =
     \<lparr>returned = Inr (json_object\<lparr>
        results := Some (map Plain textResults),
        searchType := Some ''text'',
        query := Some q,
        count := Some (length textResults)\<rparr>),
      backend_calls =
        [CountDocuments, Find MatchAll 3,
         SimilaritySearchWithScore q (n_or_default n_arg),
         Find (text_search_filter q) (n_or_default n_arg)]\<rparr>"
  by (simp add: itemLookupTool_def Let_def semantic_search_Inr)

lemma itemLookupTool_text_fails:
  "countDocuments collection = Inr totalCount \<Longrightarrow> totalCount \<noteq> 0 \<Longrightarrow>
   find_limit_toArray collection MatchAll 3 = Inr sampleDocs \<Longrightarrow>
   semantic_search collection q (n_or_default n_arg) = Inr [] \<Longrightarrow>
   find_limit_toArray collection (text_search_filter q) (n_or_default n_arg) = Inl e \<Longrightarrow>
   itemLookupTool collection q n_arg =
     itemLookupTool_catch e q
       [CountDocuments, Find MatchAll 3,
        SimilaritySearchWithScore q (n_or_default n_arg),
        Find (text_search_filter q) (n_or_default n_arg)]"
  by (simp add: itemLookupTool_def Let_def semantic_search_Inr)

lemma itemLookupTool_success:
  assumes "countDocuments collection = Inr totalCount" and "totalCount \<noteq> 0"
    and "returned (itemLookupTool collection q n_arg) = Inr env"
    and "error env = None"
  shows "\<exists>rs. results env = Some rs \<and> count env = Some (length rs)
      \<and> (searchType env = Some ''vector'' \<or> searchType env = Some ''text'')
      \<and> (searchType env = Some ''vector'' \<longleftrightarrow>
           (\<exists>result. semantic_search collection q (n_or_default n_arg) = Inr result
              \<and> result \<noteq> [] \<and> rs = map (\<lambda>(d, s). Scored d s) result))
      \<and> (searchType env = Some ''text'' \<longleftrightarrow>
           semantic_search collection q (n_or_default n_arg) = Inr []
           \<and> (\<exists>textResults.
                find_limit_toArray collection (text_search_filter q) (n_or_default n_arg)
                  = Inr textResults
                \<and> rs = map Plain textResults))"
proof (cases "find_limit_toArray collection MatchAll 3")
  case (Inl e)
  from itemLookupTool_sample_fails [OF assms(1,2) Inl] assms(3)
  have "returned (itemLookupTool_catch e q [CountDocuments, Find MatchAll 3]) = Inr env"
    by simp
  from error_itemLookupTool_catch [OF this] assms(4) show ?thesis by simp
next
  case (Inr sampleDocs)
  show ?thesis
  proof (cases rule: search_cases [of collection q n_arg])
    case (semantic_rejected e)
    from itemLookupTool_semantic_fails [OF assms(1,2) Inr this] assms(3)
    obtain cs where "returned (itemLookupTool_catch e q cs) = Inr env" by auto
    from error_itemLookupTool_catch [OF this] assms(4) show ?thesis by simp
  next
    case (vector_found result)
    from itemLookupTool_vector [OF assms(1,2) Inr this] assms(3)
    have "env = json_object\<lparr>
          results := Some (map (\<lambda>(d, s). Scored d s) result),
          searchType := Some ''vector'',
          query := Some q,
          count := Some (length result)\<rparr>" by simp
    then show ?thesis using vector_found by (simp add: json_object_def)
  next
    case (text_rejected e)
    from itemLookupTool_text_fails [OF assms(1,2) Inr this] assms(3)
    have "returned (itemLookupTool_catch e q
       [CountDocuments, Find MatchAll 3,
        SimilaritySearchWithScore q (n_or_default n_arg),
        Find (text_search_filter q) (n_or_default n_arg)]) = Inr env" by simp
    from error_itemLookupTool_catch [OF this] assms(4) show ?thesis by simp
  next
    case (text_found textResults)
    from itemLookupTool_text [OF assms(1,2) Inr this] assms(3)
    have "env = json_object\<lparr>
          results := Some (map Plain textResults),
          searchType := Some ''text'',
          query := Some q,
          count := Some (length textResults)\<rparr>" by simp
    then show ?thesis using text_found by (simp add: json_object_def)
  qed
qed

text \<open>
  C2. On a collection that is not empty, both copies of the tool return a success
  object in each of the two cases in which a search delivers: when the semantic search
  returns entries, the object holds them as \<^verbatim>\<open>results\<close>, tagged \<^verbatim>\<open>"vector"\<close> (the
  specification's semantic); when it returns none and the text search returns
  documents, the object holds those, tagged \<^verbatim>\<open>"text"\<close> (the specification's keyword);
  \<^verbatim>\<open>count\<close> is the number of \<^verbatim>\<open>results\<close> in both. The inline copy does so once its
  fetch of sample documents has succeeded. Conversely, every object either copy returns
  without an \<^verbatim>\<open>error\<close> key is one of these two: it has \<^verbatim>\<open>results\<close>, a \<^verbatim>\<open>count\<close> equal
  to their number, and one of the two tags, \<^verbatim>\<open>"vector"\<close> exactly when the semantic
  search returned the entries and \<^verbatim>\<open>"text"\<close> exactly when the text search did.
\<close>

theorem lookup_count_and_searchType:
  assumes "countDocuments collection = Inr totalCount" and "totalCount \<noteq> 0"
  shows "(\<forall>result. semantic_search collection q (n_or_default n_arg) = Inr result
            \<and> result \<noteq> [] \<longrightarrow>
          returned (createItemLookupTool collection q n_arg) =
            Inr \<lparr>error = None, message = None, details = None,
                 results = Some (map (\<lambda>(d, s). Scored d s) result),
                 searchType = Some ''vector'', query = Some q,
                 count = Some (length (map (\<lambda>(d, s). Scored d s) result))\<rparr>)
    \<and> (\<forall>textResults. semantic_search collection q (n_or_default n_arg) = Inr []
            \<and> find_limit_toArray collection (text_search_filter q) (n_or_default n_arg)
                = Inr textResults \<longrightarrow>
          returned (createItemLookupTool collection q n_arg) =
            Inr \<lparr>error = None, message = None, details = None,
                 results = Some (map Plain textResults),
                 searchType = Some ''text'', query = Some q,
                 count = Some (length (map Plain textResults))\<rparr>)
    \<and> (\<forall>env. returned (createItemLookupTool collection q n_arg) = Inr env \<and> error env = None
           \<longrightarrow> (\<exists>rs. results env = Some rs \<and> count env = Some (length rs)
      \<and> (searchType env = Some ''vector'' \<or> searchType env = Some ''text'')
      \<and> (searchType env = Some ''vector'' \<longleftrightarrow>
           (\<exists>result. semantic_search collection q (n_or_default n_arg) = Inr result
              \<and> result \<noteq> [] \<and> rs = map (\<lambda>(d, s). Scored d s) result))
      \<and> (searchType env = Some ''text'' \<longleftrightarrow>
           semantic_search collection q (n_or_default n_arg) = Inr []
           \<and> (\<exists>textResults.
                find_limit_toArray collection (text_search_filter q) (n_or_default n_arg)
                  = Inr textResults
                \<and> rs = map Plain textResults))))
    \<and> (\<forall>sampleDocs result. find_limit_toArray collection MatchAll 3 = Inr sampleDocs
            \<and> semantic_search collection q (n_or_default n_arg) = Inr result
            \<and> result \<noteq> [] \<longrightarrow>
          returned (itemLookupTool collection q n_arg) =
            Inr \<lparr>error = None, message = None, details = None,
                 results = Some (map (\<lambda>(d, s). Scored d s) result),
                 searchType = Some ''vector'', query = Some q,
                 count = Some (length (map (\<lambda>(d, s). Scored d s) result))\<rparr>)
    \<and> (\<forall>sampleDocs textResults. find_limit_toArray collection MatchAll 3 = Inr sampleDocs
            \<and> semantic_search collection q (n_or_default n_arg) = Inr []
            \<and> find_limit_toArray collection (text_search_filter q) (n_or_default n_arg)
                = Inr textResults \<longrightarrow>
          returned (itemLookupTool collection q n_arg) =
            Inr \<lparr>error = None, message = None, details = None,
                 results = Some (map Plain textResults),
                 searchType = Some ''text'', query = Some q,
                 count = Some (length (map Plain textResults))\<rparr>)
    \<and> (\<forall>env. returned (itemLookupTool collection q n_arg) = Inr env \<and> error env = None
           \<longrightarrow> (\<exists>rs. results env = Some rs \<and> count env = Some (length rs)
      \<and> (searchType env = Some ''vector'' \<or> searchType env = Some ''text'')
      \<and> (searchType env = Some ''vector'' \<longleftrightarrow>
           (\<exists>result. semantic_search collection q (n_or_default n_arg) = Inr result
              \<and> result \<noteq> [] \<and> rs = map (\<lambda>(d, s). Scored d s) result))
      \<and> (searchType env = Some ''text'' \<longleftrightarrow>
           semantic_search collection q (n_or_default n_arg) = Inr []
           \<and> (\<exists>textResults.
                find_limit_toArray collection (text_search_filter q) (n_or_default n_arg)
                  = Inr textResults
                \<and> rs = map Plain textResults))))"
proof (intro conjI allI impI)
  fix result
  assume "semantic_search collection q (n_or_default n_arg) = Inr result \<and> result \<noteq> []"
  then have s: "semantic_search collection q (n_or_default n_arg) = Inr result"
    and r: "result \<noteq> []" by simp_all
  show "returned (createItemLookupTool collection q n_arg) =
            Inr \<lparr>error = None, message = None, details = None,
                 results = Some (map (\<lambda>(d, s). Scored d s) result),
                 searchType = Some ''vector'', query = Some q,
                 count = Some (length (map (\<lambda>(d, s). Scored d s) result))\<rparr>"
    unfolding createItemLookupTool_vector [OF assms s r] by (simp add: vector_envelope)
next
  fix textResults
  assume "semantic_search collection q (n_or_default n_arg) = Inr []
            \<and> find_limit_toArray collection (text_search_filter q) (n_or_default n_arg)
                = Inr textResults"
  then have s: "semantic_search collection q (n_or_default n_arg) = Inr []"
    and t: "find_limit_toArray collection (text_search_filter q) (n_or_default n_arg)
                = Inr textResults" by simp_all
  show "returned (createItemLookupTool collection q n_arg) =
            Inr \<lparr>error = None, message = None, details = None,
                 results = Some (map Plain textResults),
                 searchType = Some ''text'', query = Some q,
                 count = Some (length (map Plain textResults))\<rparr>"
    unfolding createItemLookupTool_text [OF assms s t] by (simp add: vector_envelope)
next
  fix env
  assume "returned (createItemLookupTool collection q n_arg) = Inr env \<and> error env = None"
  then have "returned (createItemLookupTool collection q n_arg) = Inr env"
    and "error env = None" by simp_all
  then show "\<exists>rs. results env = Some rs \<and> count env = Some (length rs)
      \<and> (searchType env = Some ''vector'' \<or> searchType env = Some ''text'')
      \<and> (searchType env = Some ''vector'' \<longleftrightarrow>
           (\<exists>result. semantic_search collection q (n_or_default n_arg) = Inr result
              \<and> result \<noteq> [] \<and> rs = map (\<lambda>(d, s). Scored d s) result))
      \<and> (searchType env = Some ''text'' \<longleftrightarrow>
           semantic_search collection q (n_or_default n_arg) = Inr []
           \<and> (\<exists>textResults.
                find_limit_toArray collection (text_search_filter q) (n_or_default n_arg)
                  = Inr textResults
                \<and> rs = map Plain textResults))"
    by (rule createItemLookupTool_success [OF assms])
next
  fix sampleDocs result
  assume "find_limit_toArray collection MatchAll 3 = Inr sampleDocs
            \<and> semantic_search collection q (n_or_default n_arg) = Inr result
            \<and> result \<noteq> []"
  then have d: "find_limit_toArray collection MatchAll 3 = Inr sampleDocs"
    and s: "semantic_search collection q (n_or_default n_arg) = Inr result"
    and r: "result \<noteq> []" by simp_all
  show "returned (itemLookupTool collection q n_arg) =
            Inr \<lparr>error = None, message = None, details = None,
                 results = Some (map (\<lambda>(d, s). Scored d s) result),
                 searchType = Some ''vector'', query = Some q,
                 count = Some (length (map (\<lambda>(d, s). Scored d s) result))\<rparr>"
    unfolding itemLookupTool_vector [OF assms d s r] by (simp add: vector_envelope)
next
  fix sampleDocs textResults
  assume "find_limit_toArray collection MatchAll 3 = Inr sampleDocs
            \<and> semantic_search collection q (n_or_default n_arg) = Inr []
            \<and> find_limit_toArray collection (text_search_filter q) (n_or_default n_arg)
                = Inr textResults"
  then have d: "find_limit_toArray collection MatchAll 3 = Inr sampleDocs"
    and s: "semantic_search collection q (n_or_default n_arg) = Inr []"
    and t: "find_limit_toArray collection (text_search_filter q) (n_or_default n_arg)
                = Inr textResults" by simp_all
  show "returned (itemLookupTool collection q n_arg) =
            Inr \<lparr>error = None, message = None, details = None,
                 results = Some (map Plain textResults),
                 searchType = Some ''text'', query = Some q,
                 count = Some (length (map Plain textResults))\<rparr>"
    unfolding itemLookupTool_text [OF assms d s t] by (simp add: vector_envelope)
next
  fix env
  assume "returned (itemLookupTool collection q n_arg) = Inr env \<and> error env = None"
  then have "returned (itemLookupTool collection q n_arg) = Inr env"
    and "error env = None" by simp_all
  then show "\<exists>rs. results env = Some rs \<and> count env = Some (length rs)
      \<and> (searchType env = Some ''vector'' \<or> searchType env = Some ''text'')
      \<and> (searchType env = Some ''vector'' \<longleftrightarrow>
           (\<exists>result. semantic_search collection q (n_or_default n_arg) = Inr result
              \<and> result \<noteq> [] \<and> rs = map (\<lambda>(d, s). Scored d s) result))
      \<and> (searchType env = Some ''text'' \<longleftrightarrow>
           semantic_search collection q (n_or_default n_arg) = Inr []
           \<and> (\<exists>textResults.
                find_limit_toArray collection (text_search_filter q) (n_or_default n_arg)
                  = Inr textResults
                \<and> rs = map Plain textResults))"
    by (rule itemLookupTool_success [OF assms])
qed

text \<open>
  C2, at inputs: one item, found by the vector search, and one item, missed by the
  vector search and found by the text search, each through both copies of the tool.
\<close>

theorem lookup_count_and_searchType_witness:
  "returned (createItemLookupTool vector_hit ''oak table'' None) =
     Inr \<lparr>error = None, message = None, details = None,
          results = Some [Scored ''Oak Table'' 1], searchType = Some ''vector'',
          query = Some ''oak table'', count = Some 1\<rparr>
   \<and> returned (createItemLookupTool vector_miss ''oak table'' None) =
     Inr \<lparr>error = None, message = None, details = None,
          results = Some [Plain ''Oak Table''], searchType = Some ''text'',
          query = Some ''oak table'', count = Some 1\<rparr>
   \<and> returned (itemLookupTool vector_hit ''oak table'' None) =
     Inr \<lparr>error = None, message = None, details = None,
          results = Some [Scored ''Oak Table'' 1], searchType = Some ''vector'',
          query = Some ''oak table'', count = Some 1\<rparr>
   \<and> returned (itemLookupTool vector_miss ''oak table'' None) =
     Inr \<lparr>error = None, message = None, details = None,
          results = Some [Plain ''Oak Table''], searchType = Some ''text'',
          query = Some ''oak table'', count = Some 1\<rparr>"
proof -
  have one: "(1::nat) \<noteq> 0" by simp
  have h: "countDocuments vector_hit = Inr 1" by (simp add: vector_hit_def)
  have m: "countDocuments vector_miss = Inr 1" by (simp add: vector_miss_def)
  have hs: "find_limit_toArray vector_hit MatchAll 3 = Inr [''Oak Table'']"
    by (simp add: vector_hit_def)
  have ms: "find_limit_toArray vector_miss MatchAll 3 = Inr [''Oak Table'']"
    by (simp add: vector_miss_def)
  have hv: "semantic_search vector_hit ''oak table'' (n_or_default None)
      = Inr [(''Oak Table'', 1)]"
    by (simp add: vector_hit_def semantic_search_def)
  have mv: "semantic_search vector_miss ''oak table'' (n_or_default None) = Inr []"
    by (simp add: vector_miss_def semantic_search_def)
  have mt: "find_limit_toArray vector_miss (text_search_filter ''oak table'')
      (n_or_default None) = Inr [''Oak Table'']"
    by (simp add: vector_miss_def)
  show ?thesis
    using lookup_count_and_searchType [OF h one, of "''oak table''" None]
      lookup_count_and_searchType [OF m one, of "''oak table''" None]
      hs ms hv mv mt
    by simp
qed

text \<open>
  C5. When \<^verbatim>\<open>countDocuments\<close> reports 0, the tool returns the object with
  \<^verbatim>\<open>error\<close> \<^verbatim>\<open>"No items found in inventory"\<close> and \<^verbatim>\<open>count\<close> 0, and the count is the only
  request it has made: no vector search (the only path to the embedding backend) and no
  text search. The same holds for the inline copy.
\<close>

theorem empty_catalog_short_circuits:
  assumes "countDocuments collection = Inr 0"
  shows "(\<exists>env. returned (createItemLookupTool collection q n_arg) = Inr env
           \<and> error env = Some ''No items found in inventory'' \<and> count env = Some 0)
    \<and> backend_calls (createItemLookupTool collection q n_arg) = [CountDocuments]
    \<and> vector_searches (backend_calls (createItemLookupTool collection q n_arg)) = 0
    \<and> text_searches (backend_calls (createItemLookupTool collection q n_arg)) = 0
    \<and> (\<exists>env. returned (itemLookupTool collection q n_arg) = Inr env
           \<and> error env = Some ''No items found in inventory'' \<and> count env = Some 0)
    \<and> backend_calls (itemLookupTool collection q n_arg) = [CountDocuments]"
  unfolding createItemLookupTool_empty [OF assms] itemLookupTool_empty [OF assms]
  by (simp add: emptyResponse_def json_object_def vector_searches_def text_searches_def)

text \<open>C5, at an input: an empty collection whose searches would fail if requested.\<close>

theorem empty_catalog_short_circuits_witness:
  "returned (createItemLookupTool empty_collection ''oak table'' None) =
     Inr \<lparr>error = Some ''No items found in inventory'',
          message = Some ''The inventory database appears to be empty'',
          details = None, results = None, searchType = None, query = None,
          count = Some 0\<rparr>
   \<and> backend_calls (createItemLookupTool empty_collection ''oak table'' None)
       = [CountDocuments]"
proof -
  have c: "countDocuments empty_collection = Inr 0" by (simp add: empty_collection_def)
  have run: "returned (createItemLookupTool empty_collection ''oak table'' None) =
     Inr \<lparr>error = Some ''No items found in inventory'',
          message = Some ''The inventory database appears to be empty'',
          details = None, results = None, searchType = None, query = None,
          count = Some 0\<rparr>"
    by (simp add: createItemLookupTool_def empty_collection_def emptyResponse_def
        json_object_def)
  from empty_catalog_short_circuits [OF c, of "''oak table''" None] run
  show ?thesis by simp
qed

text \<open>
  The \<^verbatim>\<open>catch\<close> blocks. For a caught value that is an \<^verbatim>\<open>Error\<close>, both copies return the
  failure envelope: \<^verbatim>\<open>error\<close> \<^verbatim>\<open>"Failed to search inventory"\<close>, \<^verbatim>\<open>details\<close> the message,
  and the query. For other caught values the copies differ, and each lets a
  \<^verbatim>\<open>TypeError\<close> leave the tool where the other returns the envelope:
  \<^verbatim>\<open>createItemLookupTool\<close> when \<^verbatim>\<open>String(error)\<close> throws, the inline copy when the value
  is \<^verbatim>\<open>null\<close> or \<^verbatim>\<open>undefined\<close>.
\<close>

lemma createItemLookupTool_returns_or_String_throws:
  "(\<exists>env. returned (createItemLookupTool collection q n_arg) = Inr env)
   \<or> (\<exists>st msg. returned (createItemLookupTool collection q n_arg) = Inl primitiveTypeError
         \<and> (countDocuments collection = Inl (OtherValue None st msg)
            \<or> semantic_search collection q (n_or_default n_arg) = Inl (OtherValue None st msg)
            \<or> find_limit_toArray collection (text_search_filter q) (n_or_default n_arg)
                = Inl (OtherValue None st msg)))"
proof -
  have catch: "(\<exists>env. errorResponse e q = Inr env)
      \<or> (errorResponse e q = Inl primitiveTypeError \<and> (\<exists>st msg. e = OtherValue None st msg))"
    for e :: thrown and q
    by (cases e) (auto simp: errorResponse_def split: option.splits)
  show ?thesis
  proof (cases "countDocuments collection")
    case (Inl e)
    from createItemLookupTool_count_fails [OF Inl] catch [of e q] Inl show ?thesis
      by auto
  next
    case (Inr totalCount)
    show ?thesis
    proof (cases "totalCount = 0")
      case True
      with Inr have "countDocuments collection = Inr 0" by simp
      from createItemLookupTool_empty [OF this, of q n_arg] show ?thesis by simp
    next
      case False
      show ?thesis
      proof (cases rule: search_cases [of collection q n_arg])
        case (semantic_rejected e)
        from createItemLookupTool_semantic_fails(1) [OF Inr False this] catch [of e q]
          semantic_rejected
        show ?thesis by auto
      next
        case (vector_found result)
        from createItemLookupTool_vector [OF Inr False this] show ?thesis by simp
      next
        case (text_rejected e)
        from createItemLookupTool_text_fails [OF Inr False this] catch [of e q] text_rejected
        show ?thesis by auto
      next
        case (text_found textResults)
        from createItemLookupTool_text [OF Inr False this] show ?thesis by simp
      qed
    qed
  qed
qed

lemma createItemLookupTool_failure_envelope:
  assumes "countDocuments collection = Inr totalCount" and "totalCount \<noteq> 0"
    and "message_or_String e = Inr detail"
    and "semantic_search collection q (n_or_default n_arg) = Inl e
         \<or> (semantic_search collection q (n_or_default n_arg) = Inr []
            \<and> find_limit_toArray collection (text_search_filter q) (n_or_default n_arg) = Inl e)"
  shows "returned (createItemLookupTool collection q n_arg) =
          Inr \<lparr>error = Some ''Failed to search inventory'', message = None,
               details = Some detail, results = None,
               searchType = None, query = Some q, count = None\<rparr>"
  using assms(4)
proof
  assume "semantic_search collection q (n_or_default n_arg) = Inl e"
  from createItemLookupTool_semantic_fails(1) [OF assms(1,2) this]
  show ?thesis by (simp add: errorResponse_fields [OF assms(3)])
next
  assume "semantic_search collection q (n_or_default n_arg) = Inr []
            \<and> find_limit_toArray collection (text_search_filter q) (n_or_default n_arg) = Inl e"
  then have "createItemLookupTool collection q n_arg =
     \<lparr>returned = errorResponse e q,
      backend_calls =
        [CountDocuments, SimilaritySearchWithScore q (n_or_default n_arg),
         Find (text_search_filter q) (n_or_default n_arg)]\<rparr>"
    using createItemLookupTool_text_fails [OF assms(1,2)] by blast
  then show ?thesis by (simp add: errorResponse_fields [OF assms(3)])
qed

lemma itemLookupTool_catch_not_nullish:
  "e \<noteq> Null \<Longrightarrow> e \<noteq> Undefined \<Longrightarrow>
   \<exists>msg. get_message e = Inr msg \<and>
     itemLookupTool_catch e q cs =
       \<lparr>returned = Inr \<lparr>error = Some ''Failed to search inventory'', message = None,
                        details = msg, results = None, searchType = None,
                        query = Some q, count = None\<rparr>,
        backend_calls = cs\<rparr>"
  by (cases e) (simp_all add: itemLookupTool_catch_def json_object_def)





text \<open>
  C9, as stated, fails. With \<^verbatim>\<open>n\<close> equal to 0 the tool requests the vector search
  with limit 0 and then the text search with cursor limit 0, and returns the entries
  found: the call is not rejected and the limit does not become 1. With \<^verbatim>\<open>n\<close> equal to
  -5 the vector search is requested with limit -5.
\<close>

theorem nonpositive_limit_counterexample:
  "backend_calls (createItemLookupTool vector_miss ''oak'' (Some 0)) =
     [CountDocuments, SimilaritySearchWithScore ''oak'' 0,
      Find (text_search_filter ''oak'') 0]
   \<and> returned (createItemLookupTool vector_miss ''oak'' (Some 0)) =
       Inr \<lparr>error = None, message = None, details = None,
            results = Some [Plain ''Oak Table''],
            searchType = Some ''text'', query = Some ''oak'',
            count = Some 1\<rparr>
   \<and> backend_calls (createItemLookupTool vector_hit ''oak'' (Some (- 5))) =
     [CountDocuments, SimilaritySearchWithScore ''oak'' (- 5)]"
  by (simp add: createItemLookupTool_def vector_miss_def vector_hit_def n_or_default_def
      json_object_def)

text \<open>
  C9, amended. The tool does not validate \<^verbatim>\<open>n\<close>: on a collection that is not empty
  (and with the vector store constructed), for every integer \<^verbatim>\<open>n\<close>, positive or not,
  the vector search is requested with limit exactly \<^verbatim>\<open>n\<close>, and the text search, when
  it is requested, with cursor limit exactly \<^verbatim>\<open>n\<close>; an absent \<^verbatim>\<open>n\<close> is 10.
\<close>

theorem limit_reaches_searches_unchanged:
  assumes "countDocuments collection = Inr totalCount" and "totalCount \<noteq> 0"
    and "new_vectorStore collection = Inr ()"
  shows "take 2 (backend_calls (createItemLookupTool collection q (Some n))) =
           [CountDocuments, SimilaritySearchWithScore q n]
    \<and> (similaritySearchWithScore collection q n = Inr [] \<longrightarrow>
         backend_calls (createItemLookupTool collection q (Some n)) =
           [CountDocuments, SimilaritySearchWithScore q n, Find (text_search_filter q) n])
    \<and> (similaritySearchWithScore collection q n \<noteq> Inr [] \<longrightarrow>
         backend_calls (createItemLookupTool collection q (Some n)) =
           [CountDocuments, SimilaritySearchWithScore q n])
    \<and> take 2 (backend_calls (createItemLookupTool collection q None)) =
           [CountDocuments, SimilaritySearchWithScore q 10]"
  using assms
  by (simp add: createItemLookupTool_def Let_def n_or_default_def split: sum.split)

text \<open>C9, amended, at an input: limit -1 and a vector search that finds nothing.\<close>

theorem limit_reaches_searches_unchanged_witness:
  "backend_calls (createItemLookupTool vector_miss ''oak'' (Some (- 1))) =
     [CountDocuments, SimilaritySearchWithScore ''oak'' (- 1),
      Find (text_search_filter ''oak'') (- 1)]"
proof -
  have m: "countDocuments vector_miss = Inr 1" by (simp add: vector_miss_def)
  have one: "(1::nat) \<noteq> 0" by simp
  have store: "new_vectorStore vector_miss = Inr ()" by (simp add: vector_miss_def)
  have none: "similaritySearchWithScore vector_miss ''oak'' (- 1) = Inr []"
    by (simp add: vector_miss_def)
  from limit_reaches_searches_unchanged [OF m one store, of "''oak''" "- 1"] none
  show ?thesis by simp
qed


section \<open>Properties of the workflow graph\<close>

lemma shouldContinue_after_generation:
  "shouldContinue (after_generation state result) =
     Inr (if (\<exists>tcs. tool_calls result = Some tcs \<and> tcs \<noteq> []) then ''tools'' else ''__end__'')"
  by (simp add: shouldContinue_def after_generation_def apply_update_def reducer_def
      split: option.split)

text \<open>
  C8. After the generation node has appended the assistant message to the state, the
  conditional edge leads to \<^verbatim>\<open>"tools"\<close>, the tool-execution node, exactly when that
  message carries one or more tool calls, and to \<^verbatim>\<open>"__end__"\<close> otherwise (no
  \<^verbatim>\<open>tool_calls\<close> property, or an empty array); \<^verbatim>\<open>"__end__"\<close> has no successor.
\<close>

theorem generation_is_followed_by_tools_or_end:
  "successor ''agent'' (after_generation state result) =
     Some (Inr (if (\<exists>tcs. tool_calls result = Some tcs \<and> tcs \<noteq> [])
                then ''tools'' else ''__end__''))
   \<and> (successor ''agent'' (after_generation state result) = Some (Inr ''tools'')
        \<longleftrightarrow> (\<exists>tcs. tool_calls result = Some tcs \<and> 1 \<le> length tcs))
   \<and> (successor ''agent'' (after_generation state result) = Some (Inr ''__end__'')
        \<longleftrightarrow> \<not> (\<exists>tcs. tool_calls result = Some tcs \<and> 1 \<le> length tcs))
   \<and> successor ''__end__'' (after_generation state result) = None"
proof -
  have len: "\<And>tcs::'a list. (1 \<le> length tcs) = (tcs \<noteq> [])"
    by (simp add: Suc_le_eq)
  have agent: "successor ''agent'' (after_generation state result) =
      Some (shouldContinue (after_generation state result))"
    by (simp add: successor_def workflow_edges_def)
  have terminal: "successor ''__end__'' (after_generation state result) = None"
    by (simp add: successor_def workflow_edges_def)
  show ?thesis
    unfolding agent terminal shouldContinue_after_generation len by simp
qed

text \<open>
  C8, at inputs: an assistant message requesting the lookup tool, one with an empty
  array of tool calls, and one without the property.
\<close>

theorem generation_is_followed_by_tools_or_end_witness:
  "successor ''agent'' (after_generation \<lparr>messages = [question]\<rparr> lookup_request)
     = Some (Inr ''tools'')
   \<and> successor ''agent'' (after_generation \<lparr>messages = [question]\<rparr> final_answer)
     = Some (Inr ''__end__'')
   \<and> successor ''agent'' (after_generation \<lparr>messages = [question]\<rparr> question)
     = Some (Inr ''__end__'')"
  using generation_is_followed_by_tools_or_end [of "\<lparr>messages = [question]\<rparr>" lookup_request]
    generation_is_followed_by_tools_or_end [of "\<lparr>messages = [question]\<rparr>" final_answer]
    generation_is_followed_by_tools_or_end [of "\<lparr>messages = [question]\<rparr>" question]
  by (simp add: lookup_request_def final_answer_def question_def)


end
